theory Spec2Isabelle
  imports Complex_Main "HOL-Library.Word" "HOL-Library.Sublist" "HOL-Library.Log_Nat"
begin

section \<open>Data\<close>

text \<open>
  The repository holds two programs of the same shape, \<^verbatim>\<open>src/main.go\<close> and
  \<^verbatim>\<open>src/unnamed/part_000\<close>. Both declare \<^verbatim>\<open>getenvInt\<close>, \<^verbatim>\<open>main\<close>,
  \<^verbatim>\<open>pollOnce\<close> and \<^verbatim>\<open>trimTrailingZeros\<close>. Where the two texts are the same
  (\<^verbatim>\<open>getenvInt\<close>, \<^verbatim>\<open>trimTrailingZeros\<close>, the interval of \<^verbatim>\<open>main\<close>) there is one
  definition; where they differ, the definition from \<^verbatim>\<open>src/main.go\<close> carries the
  suffix \<open>_main\<close> and the one from \<^verbatim>\<open>src/unnamed/part_000\<close> the suffix \<open>_part0\<close>.

  Go strings are byte sequences: \<^typ>\<open>string\<close>. \<^verbatim>\<open>uint64\<close> is \<^typ>\<open>64 word\<close>;
  \<^verbatim>\<open>int\<close>, \<^verbatim>\<open>int64\<close> and \<^verbatim>\<open>time.Duration\<close> are \<^typ>\<open>64 word\<close> read with
  \<^const>\<open>sint\<close> (a 64-bit platform).
\<close>

type_synonym uint64 = "64 word"
type_synonym int64 = "64 word"

section \<open>Functions of the Go standard library\<close>

text \<open>
  The library functions the programs call, written from their documentation:
  \<^verbatim>\<open>strings.Contains\<close>, \<^verbatim>\<open>strings.TrimRight\<close> (with a cutset of ASCII bytes),
  \<^verbatim>\<open>strings.TrimSpace\<close>, \<^verbatim>\<open>strings.Split\<close>, \<^verbatim>\<open>strconv.Atoi\<close>,
  \<^verbatim>\<open>strconv.ParseUint\<close> and \<^verbatim>\<open>os.Getenv\<close>.
\<close>

fun Contains :: "string \<Rightarrow> string \<Rightarrow> bool" where
  "Contains [] substr = (substr = [])"
| "Contains (c # cs) substr = (prefix substr (c # cs) \<or> Contains cs substr)"

definition TrimRight :: "string \<Rightarrow> string \<Rightarrow> string" where
  \<comment> \<open>the cutset is a set of ASCII bytes: trailing bytes in it are removed\<close>
  "TrimRight s cutset = rev (dropWhile (\<lambda>c. c \<in> set cutset) (rev s))"

definition isDigit :: "char \<Rightarrow> bool" where
  "isDigit c \<longleftrightarrow> c \<in> set ''0123456789''"

definition digitVal :: "char \<Rightarrow> nat" where
  "digitVal c = of_char c - 48"

definition decimal :: "string \<Rightarrow> nat" where
  "decimal ds = foldl (\<lambda>n c. 10 * n + digitVal c) 0 ds"

definition Atoi :: "string \<Rightarrow> int option" where
  \<comment> \<open>\<^verbatim>\<open>ParseInt(s, 10, 0)\<close> as an \<^verbatim>\<open>int\<close>: an optional sign and decimal digits;
      \<open>None\<close> is any error (syntax, or a value outside the 64-bit signed range)\<close>
  "Atoi s =
     (let (neg, ds) =
        (case s of
           [] \<Rightarrow> (False, [])
         | c # cs \<Rightarrow> if c = CHR ''+'' then (False, cs)
                    else if c = CHR ''-'' then (True, cs) else (False, s))
      in if ds = [] \<or> \<not> list_all isDigit ds then None
         else let v = (if neg then - int (decimal ds) else int (decimal ds))
              in if - (2 ^ 63) \<le> v \<and> v < 2 ^ 63 then Some v else None)"

text \<open>
  \<^verbatim>\<open>strconv.ParseUint(s, 10, 64)\<close> returns a value and an error. The value matters on
  an error too, since \<^verbatim>\<open>src/main.go\<close> drops the error: it is 0 on a syntax error and
  the largest \<^verbatim>\<open>uint64\<close> on a range error. The digits are read from the left, and
  the first error found ends the scan.
\<close>

datatype num_error = ErrSyntax | ErrRange

definition maxUint64 :: uint64 where
  "maxUint64 = 18446744073709551615"

definition cutoff :: uint64 where
  \<comment> \<open>\<^verbatim>\<open>maxUint64/10 + 1\<close>: the smallest number whose tenfold overflows\<close>
  "cutoff = 1844674407370955162"

fun ParseUint_digits :: "uint64 \<Rightarrow> string \<Rightarrow> uint64 \<times> num_error option" where
  "ParseUint_digits n [] = (n, None)"
| "ParseUint_digits n (c # cs) =
     (if \<not> isDigit c then (0, Some ErrSyntax)
      else if n \<ge> cutoff then (maxUint64, Some ErrRange)
      else let n' = n * 10; n1 = n' + of_nat (digitVal c)
           in if n1 < n' \<or> n1 > maxUint64 then (maxUint64, Some ErrRange)
              else ParseUint_digits n1 cs)"

definition ParseUint :: "string \<Rightarrow> uint64 \<times> num_error option" where
  "ParseUint s = (if s = [] then (0, Some ErrSyntax) else ParseUint_digits 0 s)"

text \<open>
  \<^verbatim>\<open>strings.TrimSpace\<close> removes the leading and the trailing white space, as Unicode
  defines it, from a UTF-8 string. A string starts (ends) with a white-space character
  exactly when it starts (ends) with the UTF-8 encoding of one: the six ASCII ones,
  U+0085, U+00A0, U+1680, U+2000 to U+200A, U+2028, U+2029, U+202F, U+205F, U+3000.
\<close>

definition spaceRunes :: "string list" where
  "spaceRunes =
     [[CHR 0x09], [CHR 0x0A], [CHR 0x0B], [CHR 0x0C], [CHR 0x0D], [CHR 0x20],
      [CHR 0xC2, CHR 0x85], [CHR 0xC2, CHR 0xA0],
      [CHR 0xE1, CHR 0x9A, CHR 0x80],
      [CHR 0xE2, CHR 0x80, CHR 0x80], [CHR 0xE2, CHR 0x80, CHR 0x81],
      [CHR 0xE2, CHR 0x80, CHR 0x82], [CHR 0xE2, CHR 0x80, CHR 0x83],
      [CHR 0xE2, CHR 0x80, CHR 0x84], [CHR 0xE2, CHR 0x80, CHR 0x85],
      [CHR 0xE2, CHR 0x80, CHR 0x86], [CHR 0xE2, CHR 0x80, CHR 0x87],
      [CHR 0xE2, CHR 0x80, CHR 0x88], [CHR 0xE2, CHR 0x80, CHR 0x89],
      [CHR 0xE2, CHR 0x80, CHR 0x8A],
      [CHR 0xE2, CHR 0x80, CHR 0xA8], [CHR 0xE2, CHR 0x80, CHR 0xA9],
      [CHR 0xE2, CHR 0x80, CHR 0xAF], [CHR 0xE2, CHR 0x81, CHR 0x9F],
      [CHR 0xE3, CHR 0x80, CHR 0x80]]"

function trimRunes :: "string list \<Rightarrow> string \<Rightarrow> string" where
  "trimRunes rs s =
     (case find (\<lambda>r. r \<noteq> [] \<and> prefix r s) rs of
        None \<Rightarrow> s
      | Some r \<Rightarrow> trimRunes rs (drop (length r) s))"
  by pat_completeness auto
termination
  by (relation "measure (\<lambda>(rs, s). length s)") (auto simp: find_Some_iff prefix_def)

definition TrimSpace :: "string \<Rightarrow> string" where
  "TrimSpace s = rev (trimRunes (map rev spaceRunes) (rev (trimRunes spaceRunes s)))"

fun Split :: "string \<Rightarrow> char \<Rightarrow> string list" where
  \<comment> \<open>\<^verbatim>\<open>strings.Split\<close> with a separator of one byte: one field more than separators\<close>
  "Split [] sep = [[]]"
| "Split (c # cs) sep =
     (if c = sep then [] # Split cs sep
      else (case Split cs sep of
              f # fs \<Rightarrow> (c # f) # fs
            | [] \<Rightarrow> [[c]]))"

text \<open>\<^verbatim>\<open>%d\<close> of \<^verbatim>\<open>fmt.Printf\<close>: the decimal digits, after a minus sign when negative.\<close>

fun show_nat :: "nat \<Rightarrow> string" where
  "show_nat n =
     (if n < 10 then [''0123456789'' ! n]
      else show_nat (n div 10) @ [''0123456789'' ! (n mod 10)])"

declare show_nat.simps [simp del]

definition show_int :: "int \<Rightarrow> string" where
  "show_int i = (if i < 0 then CHR ''-'' # show_nat (nat (- i)) else show_nat (nat i))"

definition Getenv :: "(string \<rightharpoonup> string) \<Rightarrow> string \<Rightarrow> string" where
  \<comment> \<open>the value of the variable, empty when it is not set\<close>
  "Getenv env name = (case env name of None \<Rightarrow> [] | Some v \<Rightarrow> v)"

section \<open>The functions the two programs share\<close>

definition trimTrailingZeros :: "string \<Rightarrow> string" where
  "trimTrailingZeros s =
     (if \<not> Contains s ''.'' then s
      else TrimRight (TrimRight s ''0'') ''.'')"

definition getenvInt :: "(string \<rightharpoonup> string) \<Rightarrow> string \<Rightarrow> int \<Rightarrow> int" where
  "getenvInt env name def =
     (let v = Getenv env name
      in if v \<noteq> []
         then (case Atoi v of
                 Some n \<Rightarrow> if n > 0 then n else def
               | None \<Rightarrow> def)
         else def)"

definition Millisecond :: int64 where
  "Millisecond = 1000000"

definition interval :: "(string \<rightharpoonup> string) \<Rightarrow> int64" where
  \<comment> \<open>\<^verbatim>\<open>time.Duration(getenvInt("POLL_INTERVAL_MS", 1000)) * time.Millisecond\<close>:
      a count of nanoseconds, multiplied in 64 bits\<close>
  "interval env = word_of_int (getenvInt env ''POLL_INTERVAL_MS'' 1000) * Millisecond"

section \<open>Floating point\<close>

text \<open>
  A \<^verbatim>\<open>float64\<close> is a rational number, an infinity or NaN (the sign of zero plays no
  part in the programs: every zero is taken as positive, as the conversion of an
  unsigned integer gives it). \<open>round53\<close> is the rounding of IEEE 754 binary64
  arithmetic: to the nearest number with 53 significant bits, a tie going to the even
  one, with the fixed spacing \<open>2 powi - 1074\<close> below \<open>2 powi - 1022\<close>; \<open>f64_round\<close>
  adds the overflow to an infinity. A division by zero does not stop a Go program when
  the operands are floating-point numbers: the quotient is an infinity, or NaN for 0/0.
\<close>

datatype float64 = Finite rat | PosInf | NegInf | NaN

fun f64_gt :: "float64 \<Rightarrow> float64 \<Rightarrow> bool" where
  "f64_gt (Finite a) (Finite b) = (a > b)"
| "f64_gt (Finite a) NegInf = True"
| "f64_gt PosInf (Finite b) = True"
| "f64_gt PosInf NegInf = True"
| "f64_gt x y = False"

definition roundHalfEven :: "rat \<Rightarrow> int" where
  "roundHalfEven q =
     (let f = \<lfloor>q\<rfloor>; d = q - of_int f
      in if d < 1 / 2 then f
         else if 1 / 2 < d then f + 1
         else if even f then f else f + 1)"

definition floorlog2 :: "rat \<Rightarrow> int" where
  \<comment> \<open>for \<open>q > 0\<close>: the \<open>e\<close> with \<open>2 powi e \<le> q < 2 powi (e + 1)\<close>\<close>
  "floorlog2 q =
     (let (a, b) = quotient_of q; e = bitlen a - bitlen b
      in if 2 powi e \<le> q then e else e - 1)"

definition round53 :: "rat \<Rightarrow> rat" where
  "round53 q =
     (if q = 0 then 0
      else let e = max (floorlog2 \<bar>q\<bar>) (- 1022); ulp = 2 powi (e - 52)
           in of_int (roundHalfEven (q / ulp)) * ulp)"

definition f64_round :: "rat \<Rightarrow> float64" where
  "f64_round q =
     (let r = round53 q
      in if r \<ge> 2 ^ 1024 then PosInf else if r \<le> - (2 ^ 1024) then NegInf else Finite r)"

definition float64_of_uint64 :: "uint64 \<Rightarrow> float64" where
  \<comment> \<open>the conversion \<^verbatim>\<open>float64(x)\<close> of a \<^verbatim>\<open>uint64\<close>\<close>
  "float64_of_uint64 x = Finite (round53 (of_nat (unat x)))"

fun f64_div :: "float64 \<Rightarrow> float64 \<Rightarrow> float64" where
  "f64_div (Finite a) (Finite b) =
     (if b = 0 then (if a = 0 then NaN else if a > 0 then PosInf else NegInf)
      else f64_round (a / b))"
| "f64_div NaN y = NaN"
| "f64_div x NaN = NaN"
| "f64_div (Finite a) y = Finite 0"
| "f64_div PosInf (Finite b) = (if b < 0 then NegInf else PosInf)"
| "f64_div NegInf (Finite b) = (if b < 0 then PosInf else NegInf)"
| "f64_div x y = NaN"

fun f64_mul :: "float64 \<Rightarrow> float64 \<Rightarrow> float64" where
  "f64_mul (Finite a) (Finite b) = f64_round (a * b)"
| "f64_mul NaN y = NaN"
| "f64_mul x NaN = NaN"
| "f64_mul PosInf (Finite b) = (if b = 0 then NaN else if b > 0 then PosInf else NegInf)"
| "f64_mul NegInf (Finite b) = (if b = 0 then NaN else if b > 0 then NegInf else PosInf)"
| "f64_mul (Finite a) PosInf = (if a = 0 then NaN else if a > 0 then PosInf else NegInf)"
| "f64_mul (Finite a) NegInf = (if a = 0 then NaN else if a > 0 then NegInf else PosInf)"
| "f64_mul PosInf PosInf = PosInf"
| "f64_mul NegInf NegInf = PosInf"
| "f64_mul x y = NegInf"

fun Round :: "float64 \<Rightarrow> float64" where
  \<comment> \<open>\<^verbatim>\<open>math.Round\<close>: the nearest integer, halves away from zero\<close>
  "Round (Finite x) =
     Finite (if x < 0 then - of_int \<lfloor>- x + 1 / 2\<rfloor> else of_int \<lfloor>x + 1 / 2\<rfloor>)"
| "Round x = x"

fun int_of_float64 :: "float64 \<Rightarrow> int64" where
  \<comment> \<open>the conversion \<^verbatim>\<open>int(x)\<close> of a \<^verbatim>\<open>float64\<close>: the fraction is dropped. Out of
      the range of \<^verbatim>\<open>int\<close>, and for an infinity or NaN, the language leaves the
      result to the implementation; the one given here is that of amd64, the smallest
      \<^verbatim>\<open>int64\<close>.\<close>
  "int_of_float64 (Finite x) =
     (let t = (if x < 0 then - \<lfloor>- x\<rfloor> else \<lfloor>x\<rfloor>)
      in if - (2 ^ 63) \<le> t \<and> t < 2 ^ 63 then word_of_int t else 0x8000000000000000)"
| "int_of_float64 x = 0x8000000000000000"

text \<open>
  \<^verbatim>\<open>strconv.ParseFloat\<close> is library code with a large grammar (signs, exponents,
  hexadecimal mantissas, underscores, infinities, NaN). The programs take it as the
  parameter \<open>pf\<close>: the parsed value, or \<open>None\<close> for an error. \<open>decimalFloat\<close> gives its
  values on the plain decimal numerals (digits, a point, digits; at least one digit),
  where \<^verbatim>\<open>ParseFloat\<close> returns the nearest \<^verbatim>\<open>float64\<close>, or a range error when that
  would be infinite; it serves where a run on a concrete body is computed.
\<close>

definition decimalFloat :: "string \<Rightarrow> float64 option" where
  "decimalFloat s =
     (let ip = takeWhile isDigit s; rest = dropWhile isDigit s;
          fp = (case rest of
                  [] \<Rightarrow> Some []
                | c # fs \<Rightarrow> if c = CHR ''.'' \<and> list_all isDigit fs then Some fs else None)
      in case fp of
           None \<Rightarrow> None
         | Some fs \<Rightarrow>
             if ip = [] \<and> fs = [] then None
             else let r = round53 (of_nat (decimal (ip @ fs)) / 10 ^ length fs)
                  in if r \<ge> 2 ^ 1024 then None else Some (Finite r))"

section \<open>One poll: what the two programs share\<close>

text \<open>
  \<^verbatim>\<open>pollOnce\<close> talks to the server and prints. Its input here is the outcome of the
  request: a transport error, or a response with its status code, the bytes of its body
  that could be read, and whether reading them ended in an error. Its result is the
  list of the texts printed (one entry for each \<^verbatim>\<open>Printf\<close>, without the final newline)
  and the error returned, \<open>None\<close> for \<^verbatim>\<open>nil\<close>. An integer division by zero is a
  run-time panic in Go: \<open>udiv\<close> returns \<open>None\<close> for it, and so does a poll in which
  it happens.
\<close>

datatype reply = TransportError | Reply int string bool

datatype poll_error =
    DoError
  | BadStatus int
  | ReadBody
  | EmptyBody
  | FieldsCount nat
  | ParseLoadAvg
  | ParseTotalRAM | ParseUsedRAM
  | ParseTotalDisk | ParseUsedDisk
  | ParseNetCapacity | ParseNetUsed

definition udiv :: "uint64 \<Rightarrow> uint64 \<Rightarrow> uint64 option" where
  "udiv a b = (if b = 0 then None else Some (a div b))"

definition quo :: "int64 \<Rightarrow> int64 \<Rightarrow> int64" where
  \<comment> \<open>the quotient of \<^verbatim>\<open>int64\<close> by a non-zero constant: truncated towards zero\<close>
  "quo a b = word_of_int (sgn (sint a) * sgn (sint b) * (\<bar>sint a\<bar> div \<bar>sint b\<bar>))"

definition loadAvgThreshold :: float64 where
  "loadAvgThreshold = Finite 30"

definition oneMiB :: "64 word" where
  "oneMiB = 1024 * 1024"

definition loadAverage :: "float64 \<Rightarrow> string \<Rightarrow> string list" where
  \<comment> \<open>block 1 of both programs; \<open>text\<close> is what is handed to \<^verbatim>\<open>trimTrailingZeros\<close>\<close>
  "loadAverage loadAvg text =
     (if f64_gt loadAvg loadAvgThreshold
      then [''Load Average is too high: '' @ trimTrailingZeros text]
      else [])"

section \<open>One poll in \<^verbatim>\<open>src/main.go\<close>\<close>

definition memUsageThreshold_main :: int where
  "memUsageThreshold_main = 80"

definition diskUsageLimit :: int where
  "diskUsageLimit = 90"

definition netUsageLimit :: int where
  "netUsageLimit = 90"

definition memory_main :: "uint64 \<Rightarrow> uint64 \<Rightarrow> string list option" where
  "memory_main totalRAM usedRAM =
     (if totalRAM > 0
      then (case udiv (usedRAM * 100) totalRAM of
              None \<Rightarrow> None
            | Some q \<Rightarrow>
                let percent = sint q
                in if percent > memUsageThreshold_main
                   then Some [''Memory usage too high: '' @ show_int percent @ ''%'']
                   else Some [])
      else Some [])"

definition disk_main :: "uint64 \<Rightarrow> uint64 \<Rightarrow> string list option" where
  "disk_main totalDisk usedDisk =
     (if totalDisk > 0
      then (case udiv (usedDisk * 100) totalDisk of
              None \<Rightarrow> None
            | Some q \<Rightarrow>
                let percent = sint q
                in if percent > diskUsageLimit
                   then (case udiv (totalDisk - usedDisk) oneMiB of
                           None \<Rightarrow> None
                         | Some freeMB \<Rightarrow>
                             Some [''Free disk space is too low: ''
                                     @ show_nat (unat freeMB) @ '' Mb left''])
                   else Some [])
      else Some [])"

definition network_main :: "uint64 \<Rightarrow> uint64 \<Rightarrow> string list option" where
  "network_main netCap netUsed =
     (if netCap > 0
      then (case udiv (netUsed * 100) netCap of
              None \<Rightarrow> None
            | Some q \<Rightarrow>
                let percent = sint q
                in if percent > netUsageLimit
                   then (let freeBytes = netCap - netUsed
                         in case udiv freeBytes 1000000 of
                              None \<Rightarrow> None
                            | Some freeMbit \<Rightarrow>
                                Some [''Network bandwidth usage high: ''
                                        @ show_int (sint freeMbit) @ '' Mbit/s available''])
                   else Some [])
      else Some [])"

definition checks_main ::
  "float64 \<Rightarrow> string \<Rightarrow> uint64 \<Rightarrow> uint64 \<Rightarrow> uint64 \<Rightarrow> uint64 \<Rightarrow> uint64 \<Rightarrow> uint64
     \<Rightarrow> string list option" where
  \<comment> \<open>the four blocks in their order; a panic ends the run\<close>
  "checks_main loadAvg field0 totalRAM usedRAM totalDisk usedDisk netCap netUsed =
     (case memory_main totalRAM usedRAM of
        None \<Rightarrow> None
      | Some m \<Rightarrow>
          (case disk_main totalDisk usedDisk of
             None \<Rightarrow> None
           | Some d \<Rightarrow>
               (case network_main netCap netUsed of
                  None \<Rightarrow> None
                | Some n \<Rightarrow> Some (loadAverage loadAvg field0 @ m @ d @ n))))"

definition pollOnce_main ::
  "(string \<Rightarrow> float64 option) \<Rightarrow> reply \<Rightarrow> (string list \<times> poll_error option) option" where
  "pollOnce_main pf r =
     (case r of
        TransportError \<Rightarrow> Some ([], Some DoError)
      | Reply status body readFailed \<Rightarrow>
          if status \<noteq> 200 then Some ([], Some (BadStatus status))
          else if readFailed then Some ([], Some ReadBody)
          else let line = TrimSpace body
               in if line = [] then Some ([], Some EmptyBody)
                  else let fields = Split line (CHR '','')
                       in if length fields \<noteq> 7
                          then Some ([], Some (FieldsCount (length fields)))
                          else (case pf (TrimSpace (fields ! 0)) of
                                  None \<Rightarrow> Some ([], Some ParseLoadAvg)
                                | Some loadAvg \<Rightarrow>
                                    (case checks_main loadAvg (fields ! 0)
                                            (fst (ParseUint (TrimSpace (fields ! 1))))
                                            (fst (ParseUint (TrimSpace (fields ! 2))))
                                            (fst (ParseUint (TrimSpace (fields ! 3))))
                                            (fst (ParseUint (TrimSpace (fields ! 4))))
                                            (fst (ParseUint (TrimSpace (fields ! 5))))
                                            (fst (ParseUint (TrimSpace (fields ! 6)))) of
                                       None \<Rightarrow> None
                                     | Some out \<Rightarrow> Some (out, None))))"

section \<open>One poll in \<^verbatim>\<open>src/unnamed/part_000\<close>\<close>

definition ReadString :: "string \<Rightarrow> string" where
  \<comment> \<open>\<^verbatim>\<open>reader.ReadString('\n')\<close>: the bytes up to the first newline, with it, or
      all of them when there is none; the error it returns is ignored\<close>
  "ReadString body =
     (case dropWhile (\<lambda>c. c \<noteq> CHR 0x0A) body of
        [] \<Rightarrow> body
      | c # rest \<Rightarrow> takeWhile (\<lambda>c. c \<noteq> CHR 0x0A) body @ [c])"

definition splitCSV :: "string \<Rightarrow> string list" where
  "splitCSV s = map TrimSpace (Split s (CHR '',''))"

definition parseUint :: "string \<Rightarrow> uint64 \<times> num_error option" where
  "parseUint s = ParseUint (TrimSpace s)"

text \<open>
  The three blocks of \<^verbatim>\<open>src/unnamed/part_000\<close> divide floating-point numbers. Each
  returns the texts it prints and the divisions it has made, dividend and divisor, so
  that a division by zero, which Go lets pass, shows in the result.
\<close>

definition memUsageThreshold_part0 :: float64 where
  \<comment> \<open>the constant \<^verbatim>\<open>0.80\<close> as a \<^verbatim>\<open>float64\<close>\<close>
  "memUsageThreshold_part0 = Finite (round53 (80 / 100))"

definition diskUsageThreshold :: float64 where
  "diskUsageThreshold = Finite (round53 (90 / 100))"

definition netUsageThreshold :: float64 where
  "netUsageThreshold = Finite (round53 (90 / 100))"

definition oneMibit :: "64 word" where
  "oneMibit = 1024 * 1024"

definition memory_part0 :: "uint64 \<Rightarrow> uint64 \<Rightarrow> string list \<times> (float64 \<times> float64) list" where
  "memory_part0 totalRAM usedRAM =
     (if totalRAM > 0
      then let memUsage = f64_div (float64_of_uint64 usedRAM) (float64_of_uint64 totalRAM)
           in (if f64_gt memUsage memUsageThreshold_part0
               then let percent = int_of_float64 (Round (f64_mul memUsage (Finite 100)))
                    in [''Memory usage too high: '' @ show_int (sint percent) @ ''%'']
               else [],
               [(float64_of_uint64 usedRAM, float64_of_uint64 totalRAM)])
      else ([], []))"

definition disk_part0 :: "uint64 \<Rightarrow> uint64 \<Rightarrow> string list \<times> (float64 \<times> float64) list" where
  "disk_part0 totalDisk usedDisk =
     (if totalDisk > 0
      then let diskUsage = f64_div (float64_of_uint64 usedDisk) (float64_of_uint64 totalDisk)
           in (if f64_gt diskUsage diskUsageThreshold
               then let freeBytes = totalDisk - usedDisk;
                        freeMB = quo freeBytes oneMiB
                    in [''Free disk space is too low: '' @ show_int (sint freeMB) @ '' Mb left'']
               else [],
               [(float64_of_uint64 usedDisk, float64_of_uint64 totalDisk)])
      else ([], []))"

definition network_part0 :: "uint64 \<Rightarrow> uint64 \<Rightarrow> string list \<times> (float64 \<times> float64) list" where
  "network_part0 netCap netUsed =
     (if netCap > 0
      then let netUsage = f64_div (float64_of_uint64 netUsed) (float64_of_uint64 netCap)
           in (if f64_gt netUsage netUsageThreshold
               then let freeBytesPerSec = netCap - netUsed;
                        freeMibitPerSec = quo (freeBytesPerSec * 8) oneMibit
                    in [''Network bandwidth usage high: ''
                          @ show_int (sint freeMibitPerSec) @ '' Mbit/s available'']
               else [],
               [(float64_of_uint64 netUsed, float64_of_uint64 netCap)])
      else ([], []))"

definition checks_part0 ::
  "float64 \<Rightarrow> string \<Rightarrow> uint64 \<Rightarrow> uint64 \<Rightarrow> uint64 \<Rightarrow> uint64 \<Rightarrow> uint64 \<Rightarrow> uint64
     \<Rightarrow> string list" where
  \<comment> \<open>what the four blocks print, in their order\<close>
  "checks_part0 loadAvg loadAvgStr totalRAM usedRAM totalDisk usedDisk netCap netUsed =
     loadAverage loadAvg loadAvgStr @ fst (memory_part0 totalRAM usedRAM)
       @ fst (disk_part0 totalDisk usedDisk) @ fst (network_part0 netCap netUsed)"

definition divisions_part0 ::
  "uint64 \<Rightarrow> uint64 \<Rightarrow> uint64 \<Rightarrow> uint64 \<Rightarrow> uint64 \<Rightarrow> uint64 \<Rightarrow> (float64 \<times> float64) list" where
  \<comment> \<open>the divisions the blocks make, in their order\<close>
  "divisions_part0 totalRAM usedRAM totalDisk usedDisk netCap netUsed =
     snd (memory_part0 totalRAM usedRAM) @ snd (disk_part0 totalDisk usedDisk)
       @ snd (network_part0 netCap netUsed)"

definition pollOnce_part0 ::
  "(string \<Rightarrow> float64 option) \<Rightarrow> reply \<Rightarrow> (string list \<times> poll_error option) option" where
  "pollOnce_part0 pf r =
     (case r of
        TransportError \<Rightarrow> Some ([], Some DoError)
      | Reply status body readFailed \<Rightarrow>
          if status \<noteq> 200 then Some ([], Some (BadStatus status))
          else let line = TrimSpace (ReadString body)
               in if line = [] then Some ([], Some EmptyBody)
                  else let fields = splitCSV line
                       in if length fields \<noteq> 7
                          then Some ([], Some (FieldsCount (length fields)))
                          else (case pf (fields ! 0) of
             None \<Rightarrow> Some ([], Some ParseLoadAvg)
           | Some loadAvg \<Rightarrow>
               let (totalRAM, e1) = parseUint (fields ! 1) in
               if e1 \<noteq> None then Some ([], Some ParseTotalRAM) else
               let (usedRAM, e2) = parseUint (fields ! 2) in
               if e2 \<noteq> None then Some ([], Some ParseUsedRAM) else
               let (totalDisk, e3) = parseUint (fields ! 3) in
               if e3 \<noteq> None then Some ([], Some ParseTotalDisk) else
               let (usedDisk, e4) = parseUint (fields ! 4) in
               if e4 \<noteq> None then Some ([], Some ParseUsedDisk) else
               let (netCap, e5) = parseUint (fields ! 5) in
               if e5 \<noteq> None then Some ([], Some ParseNetCapacity) else
               let (netUsed, e6) = parseUint (fields ! 6) in
               if e6 \<noteq> None then Some ([], Some ParseNetUsed) else
               Some (checks_part0 loadAvg (fields ! 0)
                       totalRAM usedRAM totalDisk usedDisk netCap netUsed, None)))"

section \<open>The polling loops\<close>

text \<open>
  \<^verbatim>\<open>main\<close> never returns: it polls, sleeps and polls again. A run is followed through
  a finite number of iterations, one for each reply of the list; the result is the
  state of the two variables of \<^verbatim>\<open>main\<close> after them and all that was printed, or
  \<open>None\<close> if a poll ended in a panic. The sleep between the polls is left out.
\<close>

record poller =
  consecutiveErrors :: int64
  errorPrinted :: bool

definition notice :: string where
  "notice = ''Unable to fetch server statistic.''"

definition start :: poller where
  "start = \<lparr>consecutiveErrors = 0, errorPrinted = False\<rparr>"

definition afterPoll_main :: "poller \<Rightarrow> poll_error option \<Rightarrow> poller \<times> string list" where
  \<comment> \<open>the body of the loop of \<^verbatim>\<open>src/main.go\<close> after the call of \<^verbatim>\<open>pollOnce\<close>\<close>
  "afterPoll_main st err =
     (if err \<noteq> None
      then let st1 = st\<lparr>consecutiveErrors := consecutiveErrors st + 1\<rparr>
           in if 3 \<le>s consecutiveErrors st1 \<and> \<not> errorPrinted st1
              then (st1\<lparr>errorPrinted := True\<rparr>, [notice])
              else (st1, [])
      else (st\<lparr>consecutiveErrors := 0, errorPrinted := False\<rparr>, []))"

definition afterPoll_part0 :: "poller \<Rightarrow> poll_error option \<Rightarrow> poller \<times> string list" where
  \<comment> \<open>the same place in \<^verbatim>\<open>src/unnamed/part_000\<close>, where the flag is called
      \<^verbatim>\<open>errorMessagePrinted\<close>\<close>
  "afterPoll_part0 st err =
     (if err \<noteq> None
      then let st1 = st\<lparr>consecutiveErrors := consecutiveErrors st + 1\<rparr>
           in if 3 \<le>s consecutiveErrors st1 \<and> \<not> errorPrinted st1
              then (st1\<lparr>errorPrinted := True\<rparr>, [notice])
              else (st1, [])
      else (st\<lparr>consecutiveErrors := 0\<rparr>, []))"

fun loop ::
  "(reply \<Rightarrow> (string list \<times> poll_error option) option)
     \<Rightarrow> (poller \<Rightarrow> poll_error option \<Rightarrow> poller \<times> string list)
     \<Rightarrow> poller \<Rightarrow> reply list \<Rightarrow> (poller \<times> string list) option" where
  "loop poll after st [] = Some (st, [])"
| "loop poll after st (r # rs) =
     (case poll r of
        None \<Rightarrow> None
      | Some (out, err) \<Rightarrow>
          let (st1, said) = after st err
          in (case loop poll after st1 rs of
                None \<Rightarrow> None
              | Some (st2, rest) \<Rightarrow> Some (st2, out @ said @ rest)))"

definition main_main ::
  "(string \<Rightarrow> float64 option) \<Rightarrow> reply list \<Rightarrow> (poller \<times> string list) option" where
  "main_main pf rs = loop (pollOnce_main pf) afterPoll_main start rs"

definition main_part0 ::
  "(string \<Rightarrow> float64 option) \<Rightarrow> reply list \<Rightarrow> (poller \<times> string list) option" where
  "main_part0 pf rs = loop (pollOnce_part0 pf) afterPoll_part0 start rs"

section \<open>Reading the output\<close>

text \<open>Which of the four warnings a printed text is: each has its own opening words.\<close>

definition isLoadWarning :: "string \<Rightarrow> bool" where
  "isLoadWarning l = prefix ''Load Average is too high: '' l"

definition isMemoryWarning :: "string \<Rightarrow> bool" where
  "isMemoryWarning l = prefix ''Memory usage too high: '' l"

definition isDiskWarning :: "string \<Rightarrow> bool" where
  "isDiskWarning l = prefix ''Free disk space is too low: '' l"

definition isNetworkWarning :: "string \<Rightarrow> bool" where
  "isNetworkWarning l = prefix ''Network bandwidth usage high: '' l"

section \<open>Properties\<close>

lemma Contains_byte: "Contains s [c] \<longleftrightarrow> c \<in> set s"
  by (induction s) auto

lemma TrimRight_none: "s = [] \<or> last s \<notin> set cutset \<Longrightarrow> TrimRight s cutset = s"
  unfolding TrimRight_def
  by (cases s rule: rev_cases) auto

text \<open>
  C7. \<^verbatim>\<open>trimTrailingZeros("30.00")\<close> is \<^verbatim>\<open>"30"\<close>, \<^verbatim>\<open>trimTrailingZeros("30.50")\<close> is
  \<^verbatim>\<open>"30.5"\<close>, and a string with no decimal point, such as \<^verbatim>\<open>"45"\<close>, comes back
  unchanged.
\<close>

theorem trimTrailingZeros_examples_and_no_point:
  "trimTrailingZeros ''30.00'' = ''30''
   \<and> trimTrailingZeros ''30.50'' = ''30.5''
   \<and> (CHR ''.'' \<notin> set s \<longrightarrow> trimTrailingZeros s = s)"
  by (simp add: trimTrailingZeros_def TrimRight_def Contains_byte)

theorem trimTrailingZeros_no_point_witness:
  "CHR ''.'' \<notin> set ''45'' \<and> trimTrailingZeros ''45'' = ''45''"
  using trimTrailingZeros_examples_and_no_point [of "''45''"] by simp

subsection \<open>The poll interval\<close>

lemma Atoi_range: "Atoi s = Some n \<Longrightarrow> - (2 ^ 63) \<le> n \<and> n < 2 ^ 63"
  by (auto simp: Atoi_def Let_def split: list.splits if_splits prod.splits)

lemma sint_milliseconds:
  assumes "- 9223372036854 \<le> n" and "n \<le> 9223372036854"
  shows "sint ((word_of_int n :: 64 word) * Millisecond) = n * 1000000"
proof -
  have "(word_of_int n :: 64 word) * Millisecond = word_of_int (n * 1000000)"
    by (simp add: Millisecond_def)
  moreover have "sint (word_of_int (n * 1000000) :: 64 word)
                   = signed_take_bit (LENGTH(64) - 1) (n * 1000000)"
    by (rule sint_sbintrunc')
  moreover have "signed_take_bit (LENGTH(64) - 1) (n * 1000000) = n * 1000000"
    using assms by (intro signed_take_bit_int_eq_self) simp_all
  ultimately show ?thesis by (simp only:)
qed

lemma getenvInt_cases:
  "getenvInt env name def =
     (case Atoi (Getenv env name) of Some n \<Rightarrow> if 0 < n then n else def | None \<Rightarrow> def)"
  by (auto simp: getenvInt_def Let_def Atoi_def split: option.splits)

lemma Atoi_500: "Atoi ''500'' = Some 500"
  by (simp add: Atoi_def isDigit_def decimal_def digitVal_def)

lemma Atoi_0: "Atoi ''0'' = Some 0"
  by (simp add: Atoi_def isDigit_def decimal_def digitVal_def)

lemma Atoi_abc: "Atoi ''abc'' = None"
  by (simp add: Atoi_def isDigit_def decimal_def digitVal_def)

lemma Atoi_9223372036855: "Atoi ''9223372036855'' = Some 9223372036855"
  by (simp add: Atoi_def isDigit_def decimal_def digitVal_def)

text \<open>
  C8, as the code has it. The interval is a \<^verbatim>\<open>time.Duration\<close>, a count of nanoseconds
  in 64 bits. A value of \<^verbatim>\<open>POLL_INTERVAL_MS\<close> that \<^verbatim>\<open>Atoi\<close> reads as a positive
  \<open>n\<close> of at most 9223372036854 gives \<open>n\<close> milliseconds; a value that \<^verbatim>\<open>Atoi\<close>
  rejects, or reads as zero or less, gives the default of 1000 milliseconds.
\<close>

theorem interval_from_environment:
  "(Atoi (Getenv env ''POLL_INTERVAL_MS'') = Some n \<and> 0 < n \<and> n \<le> 9223372036854
      \<longrightarrow> sint (interval env) = n * 1000000)
   \<and> ((Atoi (Getenv env ''POLL_INTERVAL_MS'') = None
        \<or> (\<exists>k. Atoi (Getenv env ''POLL_INTERVAL_MS'') = Some k \<and> k \<le> 0))
      \<longrightarrow> sint (interval env) = 1000 * 1000000)"
  using sint_milliseconds [of n] sint_milliseconds [of 1000]
  by (auto simp: interval_def getenvInt_cases)

theorem interval_from_environment_witness:
  "Atoi ''500'' = Some 500
   \<and> sint (interval [''POLL_INTERVAL_MS'' \<mapsto> ''500'']) = 500 * 1000000
   \<and> Atoi ''0'' = Some 0
   \<and> sint (interval [''POLL_INTERVAL_MS'' \<mapsto> ''0'']) = 1000 * 1000000
   \<and> Atoi ''abc'' = None
   \<and> sint (interval [''POLL_INTERVAL_MS'' \<mapsto> ''abc'']) = 1000 * 1000000"
  using interval_from_environment [of "[''POLL_INTERVAL_MS'' \<mapsto> ''500'']" 500]
    interval_from_environment [of "[''POLL_INTERVAL_MS'' \<mapsto> ''0'']" 0]
    interval_from_environment [of "[''POLL_INTERVAL_MS'' \<mapsto> ''abc'']" 0]
  by (simp add: Getenv_def Atoi_500 Atoi_0 Atoi_abc)

text \<open>
  C8 as it is written fails for a large value: 9223372036855 is a positive integer that
  \<^verbatim>\<open>Atoi\<close> reads, and the product with \<^verbatim>\<open>time.Millisecond\<close> wraps around in 64 bits
  to a negative duration.
\<close>

theorem interval_wraps_around:
  "Atoi ''9223372036855'' = Some 9223372036855
   \<and> sint (interval [''POLL_INTERVAL_MS'' \<mapsto> ''9223372036855'']) = - 9223372036854551616"
  by (simp add: Atoi_9223372036855 interval_def getenvInt_cases Getenv_def Millisecond_def)

subsection \<open>A poll always returns, and a failed poll prints nothing\<close>

lemma memory_main_total: "memory_main t u \<noteq> None"
  by (auto simp: memory_main_def udiv_def Let_def)

lemma disk_main_total: "disk_main t u \<noteq> None"
  by (auto simp: disk_main_def udiv_def Let_def oneMiB_def)

lemma network_main_total: "network_main t u \<noteq> None"
  by (auto simp: network_main_def udiv_def Let_def)

lemma checks_main_total: "checks_main la f0 tR uR tD uD nC nU \<noteq> None"
  using memory_main_total [of tR uR] disk_main_total [of tD uD] network_main_total [of nC nU]
  by (auto simp: checks_main_def split: option.splits)

lemma pollOnce_main_total: "pollOnce_main pf r \<noteq> None"
  by (auto simp: pollOnce_main_def Let_def checks_main_total split: reply.splits option.splits)

lemma pollOnce_part0_total: "pollOnce_part0 pf r \<noteq> None"
  by (auto simp: pollOnce_part0_def Let_def split: reply.splits option.splits prod.splits)

lemma pollOnce_main_failure_silent:
  "pollOnce_main pf r = Some (out, Some e) \<Longrightarrow> out = []"
  by (auto simp: pollOnce_main_def Let_def split: reply.splits option.splits if_splits)

lemma pollOnce_part0_failure_silent:
  "pollOnce_part0 pf r = Some (out, Some e) \<Longrightarrow> out = []"
  by (auto simp: pollOnce_part0_def Let_def
           split: reply.splits option.splits if_splits prod.splits)

subsection \<open>A body that does not have seven fields\<close>

lemma afterPoll_main_failure:
  "consecutiveErrors (fst (afterPoll_main st (Some e))) = consecutiveErrors st + 1"
  by (simp add: afterPoll_main_def Let_def)

lemma afterPoll_part0_failure:
  "consecutiveErrors (fst (afterPoll_part0 st (Some e))) = consecutiveErrors st + 1"
  by (simp add: afterPoll_part0_def Let_def)

lemma TrimSpace_six_eight:
  "TrimSpace ''1,2,3,4,5,6'' = ''1,2,3,4,5,6''"
  "TrimSpace ''1,2,3,4,5,6,7,8'' = ''1,2,3,4,5,6,7,8''"
  by (simp_all add: TrimSpace_def spaceRunes_def)

lemma ReadString_six_eight:
  "ReadString ''1,2,3,4,5,6'' = ''1,2,3,4,5,6''"
  "ReadString ''1,2,3,4,5,6,7,8'' = ''1,2,3,4,5,6,7,8''"
  by (simp_all add: ReadString_def)

text \<open>
  C5, as the code has it. The text that is trimmed and split at the commas is the whole
  body in \<^verbatim>\<open>src/main.go\<close> and the first line of the body, which is all that is
  read, in \<^verbatim>\<open>src/unnamed/part_000\<close>. When
  it does not split into seven fields, the poll returns an error and prints nothing, so
  no threshold is looked at, and the loop adds one to the count of consecutive errors.
  With status 200, a body read without error and a text that is not empty after
  trimming, the error is the one about the number of fields.
\<close>

theorem wrong_field_count_is_a_failure:
  "(length (Split (TrimSpace body) (CHR '','')) \<noteq> 7 \<longrightarrow>
      (\<exists>e. pollOnce_main pf (Reply status body readFailed) = Some ([], Some e)
            \<and> (status = 200 \<and> \<not> readFailed \<and> TrimSpace body \<noteq> []
                 \<longrightarrow> e = FieldsCount (length (Split (TrimSpace body) (CHR '',''))))
            \<and> consecutiveErrors (fst (afterPoll_main st (Some e))) = consecutiveErrors st + 1))
   \<and> (length (Split (TrimSpace (ReadString body)) (CHR '','')) \<noteq> 7 \<longrightarrow>
      (\<exists>e. pollOnce_part0 pf (Reply status body readFailed) = Some ([], Some e)
            \<and> (status = 200 \<and> TrimSpace (ReadString body) \<noteq> []
                 \<longrightarrow> e = FieldsCount (length (Split (TrimSpace (ReadString body)) (CHR '',''))))
            \<and> consecutiveErrors (fst (afterPoll_part0 st (Some e))) = consecutiveErrors st + 1))"
  by (auto simp: pollOnce_main_def pollOnce_part0_def Let_def splitCSV_def
        afterPoll_main_failure afterPoll_part0_failure)

theorem wrong_field_count_witness:
  "pollOnce_main decimalFloat (Reply 200 ''1,2,3,4,5,6'' False) = Some ([], Some (FieldsCount 6))
   \<and> pollOnce_part0 decimalFloat (Reply 200 ''1,2,3,4,5,6'' False)
       = Some ([], Some (FieldsCount 6))
   \<and> pollOnce_main decimalFloat (Reply 200 ''1,2,3,4,5,6,7,8'' False)
       = Some ([], Some (FieldsCount 8))
   \<and> pollOnce_part0 decimalFloat (Reply 200 ''1,2,3,4,5,6,7,8'' False)
       = Some ([], Some (FieldsCount 8))"
  using wrong_field_count_is_a_failure [of "''1,2,3,4,5,6''" decimalFloat 200 False start]
    wrong_field_count_is_a_failure [of "''1,2,3,4,5,6,7,8''" decimalFloat 200 False start]
  by (simp add: TrimSpace_six_eight ReadString_six_eight)

subsection \<open>The four blocks and their texts\<close>

lemmas warning_defs =
  isLoadWarning_def isMemoryWarning_def isDiskWarning_def isNetworkWarning_def

lemma loadAverage_lines:
  "l \<in> set (loadAverage la t) \<Longrightarrow>
     isLoadWarning l \<and> \<not> isMemoryWarning l \<and> \<not> isDiskWarning l \<and> \<not> isNetworkWarning l"
  by (auto simp: loadAverage_def warning_defs split: if_splits)

lemma memory_main_lines:
  "memory_main t u = Some out \<Longrightarrow> l \<in> set out \<Longrightarrow>
     \<not> isLoadWarning l \<and> isMemoryWarning l \<and> \<not> isDiskWarning l \<and> \<not> isNetworkWarning l"
  by (auto simp: memory_main_def Let_def warning_defs split: if_splits option.splits)

lemma disk_main_lines:
  "disk_main t u = Some out \<Longrightarrow> l \<in> set out \<Longrightarrow>
     \<not> isLoadWarning l \<and> \<not> isMemoryWarning l \<and> isDiskWarning l \<and> \<not> isNetworkWarning l"
  by (auto simp: disk_main_def Let_def warning_defs split: if_splits option.splits)

lemma network_main_lines:
  "network_main t u = Some out \<Longrightarrow> l \<in> set out \<Longrightarrow>
     \<not> isLoadWarning l \<and> \<not> isMemoryWarning l \<and> \<not> isDiskWarning l \<and> isNetworkWarning l"
  by (auto simp: network_main_def Let_def warning_defs split: if_splits option.splits)

lemma memory_part0_lines:
  "l \<in> set (fst (memory_part0 t u)) \<Longrightarrow>
     \<not> isLoadWarning l \<and> isMemoryWarning l \<and> \<not> isDiskWarning l \<and> \<not> isNetworkWarning l"
  by (auto simp: memory_part0_def Let_def warning_defs split: if_splits)

lemma disk_part0_lines:
  "l \<in> set (fst (disk_part0 t u)) \<Longrightarrow>
     \<not> isLoadWarning l \<and> \<not> isMemoryWarning l \<and> isDiskWarning l \<and> \<not> isNetworkWarning l"
  by (auto simp: disk_part0_def Let_def warning_defs split: if_splits)

lemma network_part0_lines:
  "l \<in> set (fst (network_part0 t u)) \<Longrightarrow>
     \<not> isLoadWarning l \<and> \<not> isMemoryWarning l \<and> \<not> isDiskWarning l \<and> isNetworkWarning l"
  by (auto simp: network_part0_def Let_def warning_defs split: if_splits)

lemma zero_blocks_main:
  "memory_main 0 u = Some []" "disk_main 0 u = Some []" "network_main 0 u = Some []"
  by (simp_all add: memory_main_def disk_main_def network_main_def)

lemma zero_blocks_part0:
  "memory_part0 0 u = ([], [])" "disk_part0 0 u = ([], [])" "network_part0 0 u = ([], [])"
  by (simp_all add: memory_part0_def disk_part0_def network_part0_def)

lemma checks_main_Some:
  "checks_main la f0 tR uR tD uD nC nU = Some out \<Longrightarrow>
     \<exists>m d n. memory_main tR uR = Some m \<and> disk_main tD uD = Some d
        \<and> network_main nC nU = Some n \<and> out = loadAverage la f0 @ m @ d @ n"
  by (auto simp: checks_main_def split: option.splits)

subsection \<open>The integer percentages of \<^verbatim>\<open>src/main.go\<close>\<close>










subsection \<open>Concrete values\<close>

lemma decimalFloat_0: "decimalFloat ''0'' = Some (Finite 0)"
  by (simp add: decimalFloat_def isDigit_def decimal_def digitVal_def round53_def)

lemmas ParseUint_run = ParseUint_def isDigit_def digitVal_def
  cutoff_def maxUint64_def word_le_nat_alt word_less_nat_alt Let_def

lemma TrimSpace_plain:
  "TrimSpace ''0'' = ''0''" "TrimSpace ''abc'' = ''abc''" "TrimSpace ''100'' = ''100''"
  "TrimSpace ''95'' = ''95''" "TrimSpace ''1000'' = ''1000''" "TrimSpace ''805'' = ''805''"
  "TrimSpace ''99999999999999999999'' = ''99999999999999999999''"
  by (simp_all add: TrimSpace_def spaceRunes_def)

lemma ParseUint_plain:
  "ParseUint ''0'' = (0, None)" "ParseUint ''abc'' = (0, Some ErrSyntax)"
  "ParseUint ''100'' = (100, None)" "ParseUint ''95'' = (95, None)"
  "ParseUint ''1000'' = (1000, None)" "ParseUint ''805'' = (805, None)"
  "ParseUint ''99999999999999999999'' = (18446744073709551615, Some ErrRange)"
  by (simp_all add: ParseUint_run)

lemma loadAverage_0: "loadAverage (Finite 0) t = []"
  by (simp add: loadAverage_def loadAvgThreshold_def)

lemma trimTrailingZeros_31: "trimTrailingZeros ''31'' = ''31''"
  by (simp add: trimTrailingZeros_def)

subsection \<open>Which warnings a snapshot gives\<close>






subsection \<open>Fields that do not parse\<close>














subsection \<open>What a successful poll has parsed\<close>

lemma pollOnce_part0_success:
  assumes "pollOnce_part0 pf r = Some (out, None)"
  shows "\<exists>body rf la. r = Reply 200 body rf
        \<and> length (splitCSV (TrimSpace (ReadString body))) = 7
        \<and> pf (splitCSV (TrimSpace (ReadString body)) ! 0) = Some la
        \<and> snd (parseUint (splitCSV (TrimSpace (ReadString body)) ! 1)) = None
        \<and> snd (parseUint (splitCSV (TrimSpace (ReadString body)) ! 2)) = None
        \<and> snd (parseUint (splitCSV (TrimSpace (ReadString body)) ! 3)) = None
        \<and> snd (parseUint (splitCSV (TrimSpace (ReadString body)) ! 4)) = None
        \<and> snd (parseUint (splitCSV (TrimSpace (ReadString body)) ! 5)) = None
        \<and> snd (parseUint (splitCSV (TrimSpace (ReadString body)) ! 6)) = None
        \<and> out = checks_part0 la (splitCSV (TrimSpace (ReadString body)) ! 0)
                  (fst (parseUint (splitCSV (TrimSpace (ReadString body)) ! 1)))
                  (fst (parseUint (splitCSV (TrimSpace (ReadString body)) ! 2)))
                  (fst (parseUint (splitCSV (TrimSpace (ReadString body)) ! 3)))
                  (fst (parseUint (splitCSV (TrimSpace (ReadString body)) ! 4)))
                  (fst (parseUint (splitCSV (TrimSpace (ReadString body)) ! 5)))
                  (fst (parseUint (splitCSV (TrimSpace (ReadString body)) ! 6)))"
proof (cases r)
  case TransportError
  then show ?thesis using assms by (simp add: pollOnce_part0_def)
next
  case (Reply status body rf)
  let ?fields = "splitCSV (TrimSpace (ReadString body))"
  from assms Reply have st: "status = 200"
    by (auto simp: pollOnce_part0_def split: if_splits)
  from assms Reply st have n: "length ?fields = 7"
    by (auto simp: pollOnce_part0_def Let_def split: if_splits)
  from assms Reply st have ne: "TrimSpace (ReadString body) \<noteq> []"
    by (auto simp: pollOnce_part0_def Let_def split: if_splits)
  from assms Reply st n ne obtain la where la: "pf (?fields ! 0) = Some la"
    by (auto simp: pollOnce_part0_def Let_def split: option.splits)
  from assms Reply st n ne la have rest:
    "snd (parseUint (?fields ! 1)) = None \<and> snd (parseUint (?fields ! 2)) = None
     \<and> snd (parseUint (?fields ! 3)) = None \<and> snd (parseUint (?fields ! 4)) = None
     \<and> snd (parseUint (?fields ! 5)) = None \<and> snd (parseUint (?fields ! 6)) = None
     \<and> out = checks_part0 la (?fields ! 0)
                  (fst (parseUint (?fields ! 1))) (fst (parseUint (?fields ! 2)))
                  (fst (parseUint (?fields ! 3))) (fst (parseUint (?fields ! 4)))
                  (fst (parseUint (?fields ! 5))) (fst (parseUint (?fields ! 6)))"
    by (simp add: pollOnce_part0_def Let_def split_beta split: if_splits)
  from Reply st n la rest show ?thesis by blast
qed

lemma pollOnce_main_success:
  assumes "pollOnce_main pf r = Some (out, None)"
  shows "\<exists>body la. r = Reply 200 body False
        \<and> length (Split (TrimSpace body) (CHR '','')) = 7
        \<and> pf (TrimSpace (Split (TrimSpace body) (CHR '','') ! 0)) = Some la"
  using assms
  by (cases r) (auto simp: pollOnce_main_def Let_def split: if_splits option.splits)

text \<open>
  C3, as the code has it. A poll that returns an error prints nothing in either program,
  so no threshold is looked at. In \<^verbatim>\<open>src/unnamed/part_000\<close> a poll returns no error
  only when the status is 200, the first line has seven fields and all seven parse, and
  what it prints is the result of the checks on the seven parsed values. In
  \<^verbatim>\<open>src/main.go\<close> a poll returns no error only when the status is 200, the body was
  read, it has seven fields and field 0 parses; fields 1 to 6 need not parse.
\<close>

theorem snapshot_parsed_or_rejected:
  "(pollOnce_part0 pf r = Some (out, None) \<longrightarrow>
      (\<exists>body rf la. r = Reply 200 body rf
        \<and> length (splitCSV (TrimSpace (ReadString body))) = 7
        \<and> pf (splitCSV (TrimSpace (ReadString body)) ! 0) = Some la
        \<and> snd (parseUint (splitCSV (TrimSpace (ReadString body)) ! 1)) = None
        \<and> snd (parseUint (splitCSV (TrimSpace (ReadString body)) ! 2)) = None
        \<and> snd (parseUint (splitCSV (TrimSpace (ReadString body)) ! 3)) = None
        \<and> snd (parseUint (splitCSV (TrimSpace (ReadString body)) ! 4)) = None
        \<and> snd (parseUint (splitCSV (TrimSpace (ReadString body)) ! 5)) = None
        \<and> snd (parseUint (splitCSV (TrimSpace (ReadString body)) ! 6)) = None
        \<and> out = checks_part0 la (splitCSV (TrimSpace (ReadString body)) ! 0)
                  (fst (parseUint (splitCSV (TrimSpace (ReadString body)) ! 1)))
                  (fst (parseUint (splitCSV (TrimSpace (ReadString body)) ! 2)))
                  (fst (parseUint (splitCSV (TrimSpace (ReadString body)) ! 3)))
                  (fst (parseUint (splitCSV (TrimSpace (ReadString body)) ! 4)))
                  (fst (parseUint (splitCSV (TrimSpace (ReadString body)) ! 5)))
                  (fst (parseUint (splitCSV (TrimSpace (ReadString body)) ! 6)))))
   \<and> (pollOnce_part0 pf r = Some (out, Some e) \<longrightarrow> out = [])
   \<and> (pollOnce_main pf r = Some (out, Some e) \<longrightarrow> out = [])
   \<and> (pollOnce_main pf r = Some (out, None) \<longrightarrow>
      (\<exists>body la. r = Reply 200 body False
        \<and> length (Split (TrimSpace body) (CHR '','')) = 7
        \<and> pf (TrimSpace (Split (TrimSpace body) (CHR '','') ! 0)) = Some la))"
  using pollOnce_part0_success [of pf r out] pollOnce_main_success [of pf r out]
    pollOnce_part0_failure_silent [of pf r out e] pollOnce_main_failure_silent [of pf r out e]
  by blast

lemma body_zeros:
  "ReadString ''0,0,0,0,0,0,0'' = ''0,0,0,0,0,0,0''"
  "TrimSpace ''0,0,0,0,0,0,0'' = ''0,0,0,0,0,0,0''"
  "Split ''0,0,0,0,0,0,0'' (CHR '','') = [''0'', ''0'', ''0'', ''0'', ''0'', ''0'', ''0'']"
  by (simp_all add: ReadString_def TrimSpace_def spaceRunes_def)

lemma poll_zeros_part0:
  "pollOnce_part0 decimalFloat (Reply 200 ''0,0,0,0,0,0,0'' False) = Some ([], None)"
  by (simp add: pollOnce_part0_def body_zeros splitCSV_def parseUint_def TrimSpace_plain
        ParseUint_plain decimalFloat_0 checks_part0_def zero_blocks_part0 loadAverage_0)

lemma poll_zeros_main:
  "pollOnce_main decimalFloat (Reply 200 ''0,0,0,0,0,0,0'' False) = Some ([], None)"
  by (simp add: pollOnce_main_def body_zeros TrimSpace_plain
        ParseUint_plain decimalFloat_0 checks_main_def zero_blocks_main loadAverage_0)

lemma poll_TransportError:
  "pollOnce_main pf TransportError = Some ([], Some DoError)"
  "pollOnce_part0 pf TransportError = Some ([], Some DoError)"
  by (simp_all add: pollOnce_main_def pollOnce_part0_def)

theorem snapshot_parsed_or_rejected_witness:
  "pollOnce_part0 decimalFloat (Reply 200 ''0,0,0,0,0,0,0'' False) = Some ([], None)
   \<and> (\<exists>la. decimalFloat ''0'' = Some la \<and> snd (parseUint ''0'') = None
          \<and> [] = checks_part0 la ''0'' 0 0 0 0 0 0)
   \<and> pollOnce_main decimalFloat (Reply 200 ''0,0,0,0,0,0,0'' False) = Some ([], None)
   \<and> pollOnce_part0 decimalFloat TransportError = Some ([], Some DoError)
   \<and> pollOnce_main decimalFloat TransportError = Some ([], Some DoError)"
  using snapshot_parsed_or_rejected
          [of decimalFloat "Reply 200 ''0,0,0,0,0,0,0'' False" "[]" DoError]
    snapshot_parsed_or_rejected [of decimalFloat TransportError "[]" DoError]
  by (simp add: poll_zeros_part0 poll_zeros_main poll_TransportError body_zeros splitCSV_def
        parseUint_def TrimSpace_plain ParseUint_plain)

lemma body_oops:
  "TrimSpace ''0,100,95,oops,0,0,0'' = ''0,100,95,oops,0,0,0''"
  "Split ''0,100,95,oops,0,0,0'' (CHR '','') = [''0'', ''100'', ''95'', ''oops'', ''0'', ''0'', ''0'']"
  "TrimSpace ''oops'' = ''oops''"
  "ParseUint ''oops'' = (0, Some ErrSyntax)"
  by (simp_all add: TrimSpace_def spaceRunes_def ParseUint_run)

lemma memory_main_100_95: "memory_main 100 95 = Some [''Memory usage too high: 95%'']"
  by (simp add: memory_main_def udiv_def memUsageThreshold_main_def show_int_def show_nat.simps)

text \<open>
  C3 as it is written fails in \<^verbatim>\<open>src/main.go\<close>: the total disk of this body does not
  parse, and the poll succeeds and prints a warning from the other fields.
\<close>

theorem partly_parsed_snapshot_evaluated:
  "snd (ParseUint (TrimSpace ''oops'')) = Some ErrSyntax
   \<and> pollOnce_main decimalFloat (Reply 200 ''0,100,95,oops,0,0,0'' False)
       = Some ([''Memory usage too high: 95%''], None)"
  by (simp add: pollOnce_main_def body_oops TrimSpace_plain ParseUint_plain decimalFloat_0
        checks_main_def memory_main_100_95 zero_blocks_main loadAverage_0)

subsection \<open>The text of the load average\<close>

lemma quotient_of_63_2: "quotient_of (63 / 2) = (63, 2)"
  by code_simp

lemma bitlen_63_2: "bitlen 63 = 6" "bitlen 2 = 2"
  by code_simp+

lemma floorlog2_63_2: "floorlog2 (63 / 2) = 4"
  by (simp add: floorlog2_def quotient_of_63_2 bitlen_63_2)

lemma round53_63_2: "round53 (63 / 2) = 63 / 2"
  by (simp add: round53_def floorlog2_63_2 roundHalfEven_def)

lemma decimalFloat_31_50: "decimalFloat ''31.50'' = Some (Finite (63 / 2))"
  by (simp add: decimalFloat_def isDigit_def decimal_def digitVal_def round53_63_2)

lemma body_31_50:
  "ReadString ''31.50 ,0,0,0,0,0,0'' = ''31.50 ,0,0,0,0,0,0''"
  "TrimSpace ''31.50 ,0,0,0,0,0,0'' = ''31.50 ,0,0,0,0,0,0''"
  "Split ''31.50 ,0,0,0,0,0,0'' (CHR '','') = [''31.50 '', ''0'', ''0'', ''0'', ''0'', ''0'', ''0'']"
  "TrimSpace ''31.50 '' = ''31.50''"
  by (simp_all add: ReadString_def TrimSpace_def spaceRunes_def)

lemma loadAverage_31_50:
  "loadAverage (Finite (63 / 2)) ''31.50 '' = [''Load Average is too high: 31.50 '']"
  "loadAverage (Finite (63 / 2)) ''31.50'' = [''Load Average is too high: 31.5'']"
  by (simp_all add: loadAverage_def loadAvgThreshold_def trimTrailingZeros_def TrimRight_def)

text \<open>
  C6 at a body whose field 0 is followed by a space. \<^verbatim>\<open>src/main.go\<close> parses the
  trimmed field and hands the untrimmed one to \<^verbatim>\<open>trimTrailingZeros\<close>, which then finds
  no zero at the end: the text printed keeps its zero and the space.
  \<^verbatim>\<open>src/unnamed/part_000\<close> trims the fields when it splits the line and prints 31.5.
\<close>

theorem load_text_with_space_keeps_its_zeros:
  "TrimSpace ''31.50 '' = ''31.50''
   \<and> pollOnce_main decimalFloat (Reply 200 ''31.50 ,0,0,0,0,0,0'' False)
       = Some ([''Load Average is too high: 31.50 ''], None)
   \<and> pollOnce_part0 decimalFloat (Reply 200 ''31.50 ,0,0,0,0,0,0'' False)
       = Some ([''Load Average is too high: 31.5''], None)"
  by (simp add: pollOnce_main_def pollOnce_part0_def body_31_50 splitCSV_def parseUint_def
        TrimSpace_plain ParseUint_plain decimalFloat_31_50 checks_main_def checks_part0_def
        zero_blocks_main zero_blocks_part0 loadAverage_31_50)

text \<open>
  In \<^verbatim>\<open>src/unnamed/part_000\<close> the load warning, when printed, is the first text and
  carries the trimmed field 0 after \<^verbatim>\<open>trimTrailingZeros\<close>.
\<close>

lemma load_text_part0:
  assumes "pollOnce_part0 pf (Reply status body rf) = Some (out, None)"
    and "l \<in> set out" and "isLoadWarning l"
  shows "l = ''Load Average is too high: ''
             @ trimTrailingZeros (TrimSpace (Split (TrimSpace (ReadString body)) (CHR '','') ! 0))
         \<and> hd out = l"
proof -
  let ?fields = "splitCSV (TrimSpace (ReadString body))"
  obtain la where n: "length ?fields = 7"
    and out: "out = checks_part0 la (?fields ! 0)
                  (fst (parseUint (?fields ! 1))) (fst (parseUint (?fields ! 2)))
                  (fst (parseUint (?fields ! 3))) (fst (parseUint (?fields ! 4)))
                  (fst (parseUint (?fields ! 5))) (fst (parseUint (?fields ! 6)))"
    using pollOnce_part0_success [OF assms(1)] by auto
  have f0: "?fields ! 0 = TrimSpace (Split (TrimSpace (ReadString body)) (CHR '','') ! 0)"
    using n by (simp add: splitCSV_def)
  have "l \<in> set (loadAverage la (?fields ! 0))"
    using assms(2,3) out memory_part0_lines disk_part0_lines network_part0_lines
    by (auto simp: checks_part0_def)
  then have "loadAverage la (?fields ! 0) = [l]"
      and "l = ''Load Average is too high: '' @ trimTrailingZeros (?fields ! 0)"
    by (auto simp: loadAverage_def split: if_splits)
  then show ?thesis using out f0 by (simp add: checks_part0_def)
qed

subsection \<open>The notice in the loops\<close>

lemma loop_append:
  "loop poll after st (xs @ ys) =
     (case loop poll after st xs of
        None \<Rightarrow> None
      | Some (st1, o1) \<Rightarrow>
          (case loop poll after st1 ys of
             None \<Rightarrow> None
           | Some (st2, o2) \<Rightarrow> Some (st2, o1 @ o2)))"
  by (induction xs arbitrary: st) (auto split: option.splits prod.splits)

lemma notice_is_no_warning:
  "\<not> isLoadWarning notice" "\<not> isMemoryWarning notice"
  "\<not> isDiskWarning notice" "\<not> isNetworkWarning notice"
  by (simp_all add: notice_def warning_defs)

lemma checks_part0_no_notice: "notice \<notin> set (checks_part0 la f0 tR uR tD uD nC nU)"
  using loadAverage_lines [of notice la f0] memory_part0_lines [of notice tR uR]
    disk_part0_lines [of notice tD uD] network_part0_lines [of notice nC nU]
    notice_is_no_warning
  by (auto simp: checks_part0_def)

lemma pollOnce_part0_no_notice:
  assumes "pollOnce_part0 pf r = Some (out, err)"
  shows "notice \<notin> set out"
proof (cases err)
  case None
  then show ?thesis
    using pollOnce_part0_success [of pf r out] assms checks_part0_no_notice by auto
next
  case (Some e)
  then show ?thesis using pollOnce_part0_failure_silent [of pf r out e] assms by simp
qed

lemma checks_main_no_notice:
  assumes "checks_main la f0 tR uR tD uD nC nU = Some out"
  shows "notice \<notin> set out"
proof -
  obtain m d n where parts: "memory_main tR uR = Some m" "disk_main tD uD = Some d"
      "network_main nC nU = Some n" "out = loadAverage la f0 @ m @ d @ n"
    using checks_main_Some [OF assms] by blast
  show ?thesis
    using parts loadAverage_lines [of notice la f0] memory_main_lines [of tR uR m notice]
      disk_main_lines [of tD uD d notice] network_main_lines [of nC nU n notice]
      notice_is_no_warning
    by auto
qed

lemma pollOnce_main_no_notice:
  assumes "pollOnce_main pf r = Some (out, err)"
  shows "notice \<notin> set out"
proof (cases err)
  case None
  then show ?thesis
    using assms checks_main_no_notice
    by (cases r) (auto simp: pollOnce_main_def Let_def split: if_splits option.splits)
next
  case (Some e)
  then show ?thesis using pollOnce_main_failure_silent [of pf r out e] assms by simp
qed

lemma afterPoll_part0_flag:
  "errorPrinted st \<Longrightarrow>
     errorPrinted (fst (afterPoll_part0 st err)) \<and> snd (afterPoll_part0 st err) = []"
  by (simp add: afterPoll_part0_def Let_def)

lemma afterPoll_part0_once:
  "count_list (snd (afterPoll_part0 st err)) notice \<le> 1
   \<and> (errorPrinted (fst (afterPoll_part0 st err))
        \<longleftrightarrow> errorPrinted st \<or> notice \<in> set (snd (afterPoll_part0 st err)))"
  by (simp add: afterPoll_part0_def Let_def)

lemma loop_part0_printed:
  "errorPrinted st \<Longrightarrow>
     \<exists>st' out. loop (pollOnce_part0 pf) afterPoll_part0 st rs = Some (st', out)
        \<and> errorPrinted st' \<and> notice \<notin> set out"
proof (induction rs arbitrary: st)
  case Nil
  then show ?case by simp
next
  case (Cons r rs)
  obtain out err where p: "pollOnce_part0 pf r = Some (out, err)"
    using pollOnce_part0_total [of pf r] by (cases "pollOnce_part0 pf r") auto
  obtain st1 said where a: "afterPoll_part0 st err = (st1, said)"
    by (cases "afterPoll_part0 st err")
  have f: "errorPrinted st1" "said = []"
    using afterPoll_part0_flag [OF Cons.prems, of err] a by simp_all
  obtain st' rest where l: "loop (pollOnce_part0 pf) afterPoll_part0 st1 rs = Some (st', rest)"
      "errorPrinted st'" "notice \<notin> set rest"
    using Cons.IH [OF f(1)] by blast
  show ?case
    using p a f l pollOnce_part0_no_notice [OF p] by simp
qed

lemma loop_part0_once:
  "\<exists>st' out. loop (pollOnce_part0 pf) afterPoll_part0 st rs = Some (st', out)
        \<and> count_list out notice \<le> (if errorPrinted st then 0 else 1)
        \<and> (errorPrinted st' \<longleftrightarrow> errorPrinted st \<or> notice \<in> set out)"
proof (induction rs arbitrary: st)
  case Nil
  then show ?case by simp
next
  case (Cons r rs)
  obtain out err where p: "pollOnce_part0 pf r = Some (out, err)"
    using pollOnce_part0_total [of pf r] by (cases "pollOnce_part0 pf r") auto
  have o: "count_list out notice = 0" "notice \<notin> set out"
    using pollOnce_part0_no_notice [OF p] by simp_all
  obtain st1 said where a: "afterPoll_part0 st err = (st1, said)"
    by (cases "afterPoll_part0 st err")
  have s: "count_list said notice \<le> 1"
      "errorPrinted st1 \<longleftrightarrow> errorPrinted st \<or> notice \<in> set said"
    using afterPoll_part0_once [of st err] a by simp_all
  have s0: "errorPrinted st \<Longrightarrow> said = []"
    using afterPoll_part0_flag [of st err] a by simp
  obtain st' rest where l: "loop (pollOnce_part0 pf) afterPoll_part0 st1 rs = Some (st', rest)"
      "count_list rest notice \<le> (if errorPrinted st1 then 0 else 1)"
      "errorPrinted st' \<longleftrightarrow> errorPrinted st1 \<or> notice \<in> set rest"
    using Cons.IH [of st1] by blast
  have c: "count_list (out @ said @ rest) notice \<le> (if errorPrinted st then 0 else 1)"
  proof (cases "errorPrinted st")
    case True
    then show ?thesis using o s s0 l by simp
  next
    case False
    show ?thesis
    proof (cases "notice \<in> set said")
      case True
      then have "errorPrinted st1" using s by simp
      then have "count_list rest notice = 0" using l by simp
      then show ?thesis using False o s by simp
    next
      case False
      then have "count_list said notice = 0" by simp
      then show ?thesis using \<open>\<not> errorPrinted st\<close> o l by (simp split: if_splits)
    qed
  qed
  have e: "errorPrinted st' \<longleftrightarrow> errorPrinted st \<or> notice \<in> set (out @ said @ rest)"
    using o s l by auto
  show ?case using p a l(1) c e by simp
qed

text \<open>
  C9. In every run of \<^verbatim>\<open>src/unnamed/part_000\<close>, however many polls it has made and
  whatever they returned, the notice has been printed at most once; the flag is set
  exactly when it has been printed; and a successful poll changes nothing but the
  counter, which it sets to 0, so the flag stays set.
\<close>

theorem notice_at_most_once_in_part0:
  "\<exists>st out. main_part0 pf rs = Some (st, out)
      \<and> count_list out notice \<le> 1
      \<and> (errorPrinted st \<longleftrightarrow> notice \<in> set out)
      \<and> fst (afterPoll_part0 st None) = st\<lparr>consecutiveErrors := 0\<rparr>"
  using loop_part0_once [of pf start rs]
  by (auto simp: main_part0_def start_def afterPoll_part0_def)

lemma loop_snoc_failure_main:
  assumes "loop (pollOnce_main pf) afterPoll_main st fs = Some (st1, out)"
    and "pollOnce_main pf r = Some ([], Some e)"
  shows "loop (pollOnce_main pf) afterPoll_main st (fs @ [r])
           = Some (fst (afterPoll_main st1 (Some e)), out @ snd (afterPoll_main st1 (Some e)))"
  using assms by (simp add: loop_append split_beta)

lemma sle_small:
  "\<not> 3 \<le>s (1 :: 64 word)" "\<not> 3 \<le>s (2 :: 64 word)" "3 \<le>s (3 :: 64 word)"
  by (simp_all add: word_sle_eq)

lemma streak_main:
  assumes "\<forall>r \<in> set fs. \<exists>e. pollOnce_main pf r = Some ([], Some e)"
  shows "loop (pollOnce_main pf) afterPoll_main start fs
          = Some (\<lparr>consecutiveErrors = of_nat (length fs), errorPrinted = (3 \<le> length fs)\<rparr>,
                  if 3 \<le> length fs then [notice] else [])"
  using assms
proof (induction fs rule: rev_induct)
  case Nil
  then show ?case by (simp add: start_def)
next
  case (snoc r fs)
  let ?k = "length fs"
  let ?st = "\<lparr>consecutiveErrors = of_nat ?k :: 64 word, errorPrinted = (3 \<le> ?k)\<rparr>"
  have ih: "loop (pollOnce_main pf) afterPoll_main start fs
          = Some (?st, if 3 \<le> ?k then [notice] else [])"
    using snoc by simp
  obtain e where e: "pollOnce_main pf r = Some ([], Some e)"
    using snoc.prems by auto
  have step: "afterPoll_main ?st (Some e)
      = (\<lparr>consecutiveErrors = of_nat (Suc ?k), errorPrinted = (3 \<le> Suc ?k)\<rparr>,
         if Suc ?k = 3 then [notice] else [])"
  proof (cases "3 \<le> ?k")
    case True
    then show ?thesis by (simp add: afterPoll_main_def Let_def)
  next
    case False
    then have "?k = 0 \<or> ?k = 1 \<or> ?k = 2" by linarith
    then show ?thesis
      by (elim disjE) (simp_all add: afterPoll_main_def Let_def sle_small)
  qed
  show ?case
    using loop_snoc_failure_main [OF ih e] step by auto
qed

lemma loop_main_total:
  "\<exists>st' out. loop (pollOnce_main pf) afterPoll_main st rs = Some (st', out)"
proof (induction rs arbitrary: st)
  case Nil
  then show ?case by simp
next
  case (Cons r rs)
  obtain out err where p: "pollOnce_main pf r = Some (out, err)"
    using pollOnce_main_total [of pf r] by (cases "pollOnce_main pf r") auto
  obtain st1 said where a: "afterPoll_main st err = (st1, said)"
    by (cases "afterPoll_main st err")
  obtain st' rest where "loop (pollOnce_main pf) afterPoll_main st1 rs = Some (st', rest)"
    using Cons.IH [of st1] by blast
  then show ?case using p a by simp
qed

lemma after_success_main:
  assumes "pre = [] \<or> (\<exists>out. pollOnce_main pf (last pre) = Some (out, None))"
  shows "\<exists>out. loop (pollOnce_main pf) afterPoll_main start pre = Some (start, out)"
proof (cases "pre = []")
  case True
  then show ?thesis by simp
next
  case False
  then obtain o1 where l: "pollOnce_main pf (last pre) = Some (o1, None)"
    using assms by blast
  obtain st1 o0 where b: "loop (pollOnce_main pf) afterPoll_main start (butlast pre)
      = Some (st1, o0)"
    using loop_main_total by blast
  have "afterPoll_main st1 None = (start, [])"
    by (simp add: afterPoll_main_def start_def)
  then have "loop (pollOnce_main pf) afterPoll_main start (butlast pre @ [last pre])
      = Some (start, o0 @ o1)"
    using b l by (simp add: loop_append)
  then show ?thesis using False by simp
qed

text \<open>
  In \<^verbatim>\<open>src/main.go\<close> the loop does what C2 says. After a start or a successful poll,
  a streak of failed polls prints the notice once, at its third poll, and nothing
  before or after it; this holds for every streak of the run.
\<close>

lemma notice_in_main_streaks:
  assumes "pre = [] \<or> (\<exists>out. pollOnce_main pf (last pre) = Some (out, None))"
    and "\<forall>r \<in> set fs. \<exists>out e. pollOnce_main pf r = Some (out, Some e)"
  shows "\<exists>st out st'. main_main pf pre = Some (st, out)
          \<and> main_main pf (pre @ fs)
              = Some (st', out @ (if 3 \<le> length fs then [notice] else []))"
proof -
  obtain out where pre: "loop (pollOnce_main pf) afterPoll_main start pre = Some (start, out)"
    using after_success_main [OF assms(1)] by blast
  have "\<forall>r \<in> set fs. \<exists>e. pollOnce_main pf r = Some ([], Some e)"
    using assms(2) pollOnce_main_failure_silent by blast
  then have "loop (pollOnce_main pf) afterPoll_main start fs
          = Some (\<lparr>consecutiveErrors = of_nat (length fs), errorPrinted = (3 \<le> length fs)\<rparr>,
                  if 3 \<le> length fs then [notice] else [])"
    by (rule streak_main)
  then show ?thesis using pre by (simp add: main_main_def loop_append)
qed

text \<open>
  C2 at a run of three failed polls, a successful one and three failed ones again.
  \<^verbatim>\<open>src/unnamed/part_000\<close> prints the notice once, for the first streak only;
  \<^verbatim>\<open>src/main.go\<close> prints it for each of the two streaks.
\<close>

theorem second_streak_is_silent_in_part0:
  "main_part0 decimalFloat
     [TransportError, TransportError, TransportError,
      Reply 200 ''0,0,0,0,0,0,0'' False,
      TransportError, TransportError, TransportError]
     = Some (\<lparr>consecutiveErrors = 3, errorPrinted = True\<rparr>, [notice])
   \<and> main_main decimalFloat
     [TransportError, TransportError, TransportError,
      Reply 200 ''0,0,0,0,0,0,0'' False,
      TransportError, TransportError, TransportError]
     = Some (\<lparr>consecutiveErrors = 3, errorPrinted = True\<rparr>, [notice, notice])"
  by (simp add: main_part0_def main_main_def start_def poll_TransportError poll_zeros_part0
        poll_zeros_main afterPoll_part0_def afterPoll_main_def Let_def sle_small)

theorem notice_at_most_once_in_part0_witness:
  "\<exists>st out. main_part0 decimalFloat
         [TransportError, TransportError, TransportError,
          Reply 200 ''0,0,0,0,0,0,0'' False,
          TransportError, TransportError, TransportError, TransportError] = Some (st, out)
      \<and> count_list out notice \<le> 1
      \<and> (errorPrinted st \<longleftrightarrow> notice \<in> set out)
      \<and> fst (afterPoll_part0 st None) = st\<lparr>consecutiveErrors := 0\<rparr>"
  using notice_at_most_once_in_part0 [of decimalFloat
         "[TransportError, TransportError, TransportError,
          Reply 200 ''0,0,0,0,0,0,0'' False,
          TransportError, TransportError, TransportError, TransportError]"]
  by simp

subsection \<open>The floating-point comparison of \<^verbatim>\<open>src/unnamed/part_000\<close>\<close>

lemma floorlog2_values:
  "floorlog2 805 = 9" "floorlog2 1000 = 9" "floorlog2 (161 / 200) = - 1"
  "floorlog2 (4 / 5) = - 1" "floorlog2 4 = 2" "floorlog2 5 = 2"
  "floorlog2 (181269885001662475 / 2251799813685248) = 6"
  "floorlog2 800000000000000001 = 59" "floorlog2 1000000000000000000 = 59"
  by code_simp+

lemma floor_values:
  "\<lfloor>36028797018963968 / 5 :: rat\<rfloor> = 7205759403792793"
  "\<lfloor>181269885001662464 / 25 :: rat\<rfloor> = 7250795400066498"
  "\<lfloor>181269885001662475 / 32 :: rat\<rfloor> = 5664683906301952"
  "\<lfloor>800000000000000001 / 128 :: rat\<rfloor> = 6250000000000000"
  by code_simp+

lemma round53_values:
  "round53 805 = 805" "round53 1000 = 1000" "round53 4 = 4" "round53 5 = 5"
  "round53 (4 / 5) = 3602879701896397 / 4503599627370496"
  "round53 (161 / 200) = 7250795400066499 / 9007199254740992"
  "round53 (181269885001662475 / 2251799813685248) = 161 / 2"
  "round53 800000000000000001 = 800000000000000000"
  "round53 1000000000000000000 = 1000000000000000000"
  by (simp_all add: round53_def floorlog2_values roundHalfEven_def Let_def floor_values)

text \<open>
  The memory check of \<^verbatim>\<open>src/unnamed/part_000\<close> at three inputs. Four bytes of five
  used is not above the threshold. 805 of 1000 gives the warning, with 81 for the
  percentage (\<^verbatim>\<open>src/main.go\<close> prints nothing there). With 800000000000000001 of
  1000000000000000000 bytes used the ratio is above 0.80, but the conversion to
  \<^verbatim>\<open>float64\<close> drops the last unit, the quotient is the constant itself, and there is
  no warning.
\<close>

lemma memory_part0_examples:
  "fst (memory_part0 5 4) = []"
  "fst (memory_part0 1000 805) = [''Memory usage too high: 81%'']"
  "fst (memory_part0 1000000000000000000 800000000000000001) = []"
  by (simp_all add: memory_part0_def float64_of_uint64_def f64_round_def round53_values
        memUsageThreshold_part0_def show_int_def show_nat.simps)

subsection \<open>A denominator of zero\<close>

lemma roundHalfEven_ge_floor: "\<lfloor>q\<rfloor> \<le> roundHalfEven q"
  by (simp add: roundHalfEven_def Let_def)

lemma bitlen_1: "bitlen 1 = 1"
  by (simp add: bitlen_alt_def)

lemma floorlog2_nat_le:
  assumes "0 < n"
  shows "floorlog2 (of_nat n) \<le> bitlen (int n) - 1"
    and "- 1 \<le> floorlog2 (of_nat n)"
proof -
  have q: "quotient_of (of_nat n :: rat) = (int n, 1)"
    using quotient_of_rat_of_int [of "int n"] by simp
  have "1 \<le> bitlen (int n)" using assms by (simp add: bitlen_alt_def)
  then show "floorlog2 (of_nat n) \<le> bitlen (int n) - 1" "- 1 \<le> floorlog2 (of_nat n)"
    by (simp_all add: floorlog2_def q bitlen_1 Let_def)
qed

lemma round53_nat_pos:
  assumes "0 < n"
  shows "0 < round53 (of_nat n)"
proof -
  let ?q = "of_nat n :: rat"
  let ?e = "max (floorlog2 \<bar>?q\<bar>) (- 1022)"
  let ?ulp = "2 powi (?e - 52) :: rat"
  have qpos: "0 < ?q" using assms by simp
  have e: "?e \<le> bitlen (int n) - 1"
    using floorlog2_nat_le [OF assms] by simp
  have b1: "1 \<le> bitlen (int n)" using assms by (simp add: bitlen_alt_def)
  have e52: "?e - 52 \<le> bitlen (int n) - 1" using e by linarith
  have "?ulp \<le> 2 powi (bitlen (int n) - 1)"
    by (rule power_int_increasing [OF e52]) simp
  also have "\<dots> = 2 ^ nat (bitlen (int n) - 1)"
    using b1 by (simp add: power_int_nonneg_exp)
  also have "\<dots> \<le> ?q"
  proof -
    have "2 ^ nat (bitlen (int n) - 1) \<le> int n"
      using bitlen_bounds [of "int n"] assms by simp
    then have "rat_of_int (2 ^ nat (bitlen (int n) - 1)) \<le> rat_of_int (int n)"
      by (simp only: of_int_le_iff)
    then show ?thesis by simp
  qed
  finally have le: "?ulp \<le> ?q" .
  have upos: "0 < ?ulp" by simp
  then have "1 \<le> ?q / ?ulp" using le by (simp add: le_divide_eq)
  then have "1 \<le> \<lfloor>?q / ?ulp\<rfloor>" by (simp add: le_floor_iff)
  then have "1 \<le> roundHalfEven (?q / ?ulp)"
    using roundHalfEven_ge_floor [of "?q / ?ulp"] by linarith
  then have "0 < rat_of_int (roundHalfEven (?q / ?ulp))" by simp
  then have "0 < rat_of_int (roundHalfEven (?q / ?ulp)) * ?ulp"
    using upos by (rule mult_pos_pos)
  then show ?thesis using qpos by (simp add: round53_def Let_def)
qed

lemma float64_of_uint64_nonzero:
  "x \<noteq> 0 \<Longrightarrow> float64_of_uint64 x \<noteq> Finite 0"
  "x \<noteq> 0 \<Longrightarrow> Finite 0 \<noteq> float64_of_uint64 x"
  using round53_nat_pos [of "unat x"]
  by (simp_all add: float64_of_uint64_def unat_gt_0)

lemma divisions_part0_nonzero:
  "(a, b) \<in> set (divisions_part0 tR uR tD uD nC nU) \<Longrightarrow> b \<noteq> Finite 0"
  by (auto simp: divisions_part0_def memory_part0_def disk_part0_def network_part0_def
        Let_def word_gt_0 float64_of_uint64_nonzero split: if_splits)

text \<open>
  C4. The four blocks of \<^verbatim>\<open>src/main.go\<close> always run to their end, so no integer
  division by zero happens for any values (it would make \<open>checks_main\<close> return
  \<open>None\<close>), and when \<^verbatim>\<open>totalRAM\<close>, \<^verbatim>\<open>totalDisk\<close> or \<^verbatim>\<open>netCap\<close> is zero, nothing
  printed is the warning of that metric, whatever the numerator is. In
  \<^verbatim>\<open>src/unnamed/part_000\<close> no division that the blocks make, for any values, has the
  divisor zero, and when a total or the capacity is zero its block makes no division
  and prints nothing, so that nothing printed is the warning of that metric.
\<close>

theorem zero_denominator_skips_the_check:
  "(\<exists>out. checks_main la f0 tR uR tD uD nC nU = Some out
       \<and> (tR = 0 \<longrightarrow> \<not> (\<exists>l \<in> set out. isMemoryWarning l))
       \<and> (tD = 0 \<longrightarrow> \<not> (\<exists>l \<in> set out. isDiskWarning l))
       \<and> (nC = 0 \<longrightarrow> \<not> (\<exists>l \<in> set out. isNetworkWarning l)))
   \<and> (\<forall>d \<in> set (divisions_part0 tR uR tD uD nC nU). snd d \<noteq> Finite 0)
   \<and> (tR = 0 \<longrightarrow> memory_part0 tR uR = ([], [])
        \<and> \<not> (\<exists>l \<in> set (checks_part0 la f0 tR uR tD uD nC nU). isMemoryWarning l))
   \<and> (tD = 0 \<longrightarrow> disk_part0 tD uD = ([], [])
        \<and> \<not> (\<exists>l \<in> set (checks_part0 la f0 tR uR tD uD nC nU). isDiskWarning l))
   \<and> (nC = 0 \<longrightarrow> network_part0 nC nU = ([], [])
        \<and> \<not> (\<exists>l \<in> set (checks_part0 la f0 tR uR tD uD nC nU). isNetworkWarning l))"
proof -
  obtain out where out: "checks_main la f0 tR uR tD uD nC nU = Some out"
    using checks_main_total [of la f0 tR uR tD uD nC nU] by auto
  then obtain m d n where parts: "memory_main tR uR = Some m" "disk_main tD uD = Some d"
      "network_main nC nU = Some n" "out = loadAverage la f0 @ m @ d @ n"
    using checks_main_Some by blast
  have a: "tR = 0 \<longrightarrow> \<not> (\<exists>l \<in> set out. isMemoryWarning l)"
    using parts loadAverage_lines disk_main_lines network_main_lines
    by (auto simp: zero_blocks_main)
  have b: "tD = 0 \<longrightarrow> \<not> (\<exists>l \<in> set out. isDiskWarning l)"
    using parts loadAverage_lines memory_main_lines network_main_lines
    by (auto simp: zero_blocks_main)
  have c: "nC = 0 \<longrightarrow> \<not> (\<exists>l \<in> set out. isNetworkWarning l)"
    using parts loadAverage_lines memory_main_lines disk_main_lines
    by (auto simp: zero_blocks_main)
  have z: "\<forall>d \<in> set (divisions_part0 tR uR tD uD nC nU). snd d \<noteq> Finite 0"
    using divisions_part0_nonzero [of _ _ tR uR tD uD nC nU] by auto
  have d: "tR = 0 \<longrightarrow> memory_part0 tR uR = ([], [])
        \<and> \<not> (\<exists>l \<in> set (checks_part0 la f0 tR uR tD uD nC nU). isMemoryWarning l)"
    using loadAverage_lines disk_part0_lines network_part0_lines
    by (auto simp: checks_part0_def zero_blocks_part0)
  have e: "tD = 0 \<longrightarrow> disk_part0 tD uD = ([], [])
        \<and> \<not> (\<exists>l \<in> set (checks_part0 la f0 tR uR tD uD nC nU). isDiskWarning l)"
    using loadAverage_lines memory_part0_lines network_part0_lines
    by (auto simp: checks_part0_def zero_blocks_part0)
  have f: "nC = 0 \<longrightarrow> network_part0 nC nU = ([], [])
        \<and> \<not> (\<exists>l \<in> set (checks_part0 la f0 tR uR tD uD nC nU). isNetworkWarning l)"
    using loadAverage_lines memory_part0_lines disk_part0_lines
    by (auto simp: checks_part0_def zero_blocks_part0)
  from out a b c z d e f show ?thesis by blast
qed

lemma divisions_part0_5_4:
  "divisions_part0 5 4 0 7 0 9 = [(Finite 4, Finite 5)]"
  by (simp add: divisions_part0_def memory_part0_def zero_blocks_part0 float64_of_uint64_def
        round53_values Let_def)

theorem zero_denominator_witness:
  "(\<exists>out. checks_main (Finite 31) ''31'' 0 5 0 7 0 9 = Some out
       \<and> \<not> (\<exists>l \<in> set out. isMemoryWarning l)
       \<and> \<not> (\<exists>l \<in> set out. isDiskWarning l)
       \<and> \<not> (\<exists>l \<in> set out. isNetworkWarning l))
   \<and> memory_part0 0 5 = ([], []) \<and> disk_part0 0 7 = ([], []) \<and> network_part0 0 9 = ([], [])
   \<and> \<not> (\<exists>l \<in> set (checks_part0 (Finite 31) ''31'' 0 5 0 7 0 9). isMemoryWarning l)
   \<and> \<not> (\<exists>l \<in> set (checks_part0 (Finite 31) ''31'' 0 5 0 7 0 9). isDiskWarning l)
   \<and> \<not> (\<exists>l \<in> set (checks_part0 (Finite 31) ''31'' 0 5 0 7 0 9). isNetworkWarning l)
   \<and> divisions_part0 5 4 0 7 0 9 = [(Finite 4, Finite 5)]
   \<and> snd (Finite (4 :: rat), Finite (5 :: rat)) \<noteq> Finite 0"
  using zero_denominator_skips_the_check [of "Finite 31" "''31''" 0 5 0 7 0 9]
    zero_denominator_skips_the_check [of "Finite 31" "''31''" 5 4 0 7 0 9]
  by (simp add: divisions_part0_5_4)

subsection \<open>A body of more than one line\<close>

lemma floorlog2_31: "floorlog2 31 = 4"
  by code_simp

lemma decimalFloat_31: "decimalFloat ''31'' = Some (Finite 31)"
  by (simp add: decimalFloat_def isDigit_def decimal_def digitVal_def round53_def
        floorlog2_31 roundHalfEven_def Let_def)

lemma body_two_lines:
  "TrimSpace (''31,0,0,0,0,0,0\<newline>,'') = ''31,0,0,0,0,0,0\<newline>,''"
  "length (Split (''31,0,0,0,0,0,0\<newline>,'') (CHR '','')) = 8"
  "ReadString (''31,0,0,0,0,0,0\<newline>,'') = ''31,0,0,0,0,0,0\<newline>''"
  "TrimSpace (''31,0,0,0,0,0,0\<newline>'') = ''31,0,0,0,0,0,0''"
  "Split ''31,0,0,0,0,0,0'' (CHR '','') = [''31'', ''0'', ''0'', ''0'', ''0'', ''0'', ''0'']"
  "TrimSpace ''31'' = ''31''"
  by (simp_all add: ReadString_def TrimSpace_def spaceRunes_def)

lemma loadAverage_31: "loadAverage (Finite 31) ''31'' = [''Load Average is too high: 31'']"
  by (simp add: loadAverage_def loadAvgThreshold_def trimTrailingZeros_31)

text \<open>
  C5 as it is written fails in \<^verbatim>\<open>src/unnamed/part_000\<close>, which reads the body up to
  the first newline only. This body splits into eight fields after trimming; its first
  line has seven, and the poll succeeds, prints the load warning and sets the count of
  consecutive errors to 0.
\<close>

theorem second_line_is_not_read_in_part0:
  "length (Split (TrimSpace (''31,0,0,0,0,0,0\<newline>,'')) (CHR '','')) = 8
   \<and> pollOnce_part0 decimalFloat (Reply 200 (''31,0,0,0,0,0,0\<newline>,'') False)
       = Some ([''Load Average is too high: 31''], None)
   \<and> consecutiveErrors (fst (afterPoll_part0 start None)) = 0"
  by (simp add: pollOnce_part0_def body_two_lines splitCSV_def parseUint_def TrimSpace_plain
        ParseUint_plain decimalFloat_31 checks_part0_def zero_blocks_part0 loadAverage_31
        afterPoll_part0_def)

end
